theory Spec2Isabelle
  imports Main "HOL-Library.Signed_Division"
begin

section \<open>OpenShock-GD: configuration loading and request construction\<close>

text \<open>
  A shallow embedding of \<^verbatim>\<open>src/main.cpp\<close>: the functions \<^verbatim>\<open>writeReadme\<close>,
  \<^verbatim>\<open>readConfig\<close>, \<^verbatim>\<open>generateRandomValue\<close>, \<^verbatim>\<open>showPopupMessage\<close> and
  \<^verbatim>\<open>sendPostRequest\<close> of the modified player object.

  What the program reads from outside is an environment (\<open>env\<close>): whether
  \<^verbatim>\<open>readme.txt\<close> can be opened for writing, what opening and parsing
  \<^verbatim>\<open>settings.json\<close> gives, the values the system's random device delivers and the
  integer distribution of the C++ library. What the program does to the outside is a
  trace of events in program order: the documentation file written, the settings file
  opened, messages logged, pop-ups shown, requests posted.

  The trigger is the hook \<^verbatim>\<open>playDeathEffect\<close>: after the effect of the game, the
  pause and the pop-up \<^verbatim>\<open>Shocking...\<close> it calls \<^verbatim>\<open>sendPostRequest\<close>, which is where
  the configuration is loaded and the request is built.

  Not modelled: the engine side of \<^verbatim>\<open>playDeathEffect\<close> and \<^verbatim>\<open>pauseGame\<close>, the
  response listener bound before the request is posted (it runs later, when the web
  task reports), the text of \<^verbatim>\<open>readme.txt\<close>, the serialisation of the request body by
  \<^verbatim>\<open>dump()\<close> (the body is kept as the JSON value that is dumped) and JSON numbers with
  a fraction or an exponent.
\<close>

subsection \<open>JSON values and the accessors of nlohmann::json the program uses\<close>

text \<open>
  An object is an association list; a key is looked up with \<open>map_of\<close>.
  \<open>JInt\<close> stands for both integer kinds of the library (signed and unsigned 64 bit).
\<close>

datatype json =
    JNull
  | JBool bool
  | JInt int
  | JString string
  | JArray "json list"
  | JObject "(string \<times> json) list"

text \<open>
  What can go wrong outside the program's own checks: an exception of the JSON library
  (\<open>type_error\<close> with the library's error number: 302 for a value of the wrong type,
  306 for \<^verbatim>\<open>value()\<close> on something that is not an object), which nothing in
  \<^verbatim>\<open>main.cpp\<close> catches, and a distribution constructed with \<open>max < min\<close>, whose
  behaviour the C++ standard leaves undefined.
\<close>

datatype failure = type_error nat | undefined_behaviour

text \<open>\<^verbatim>\<open>static_cast<int>\<close> of a 64-bit integer: the value modulo \<open>2^32\<close>, read as signed.\<close>

definition int32 :: "int \<Rightarrow> int" where
  "int32 x = (x + 2 ^ 31) mod 2 ^ 32 - 2 ^ 31"

text \<open>\<^verbatim>\<open>get<int>()\<close>: numbers and booleans convert, anything else throws.\<close>

fun get_int :: "json \<Rightarrow> failure + int" where
  "get_int (JInt n) = Inr (int32 n)"
| "get_int (JBool b) = Inr (if b then 1 else 0)"
| "get_int _ = Inl (type_error 302)"

text \<open>\<^verbatim>\<open>get<std::string>()\<close>: only a string converts.\<close>

fun get_string :: "json \<Rightarrow> failure + string" where
  "get_string (JString s) = Inr s"
| "get_string _ = Inl (type_error 302)"

text \<open>
  \<^verbatim>\<open>j.value(key, default)\<close>: on an object, the converted value of the key if the key is
  there and the default otherwise; on anything else it throws.
\<close>

fun value_int :: "json \<Rightarrow> string \<Rightarrow> int \<Rightarrow> failure + int" where
  "value_int (JObject kvs) key dflt =
     (case map_of kvs key of None \<Rightarrow> Inr dflt | Some v \<Rightarrow> get_int v)"
| "value_int _ key dflt = Inl (type_error 306)"

fun value_string :: "json \<Rightarrow> string \<Rightarrow> string \<Rightarrow> failure + string" where
  "value_string (JObject kvs) key dflt =
     (case map_of kvs key of None \<Rightarrow> Inr dflt | Some v \<Rightarrow> get_string v)"
| "value_string _ key dflt = Inl (type_error 306)"

text \<open>
  \<^verbatim>\<open>j.empty()\<close>: true of null, of an array or object without elements, false of every
  other value.
\<close>

fun empty_json :: "json \<Rightarrow> bool" where
  "empty_json JNull = True"
| "empty_json (JArray xs) = (xs = [])"
| "empty_json (JObject kvs) = (kvs = [])"
| "empty_json _ = False"

subsection \<open>\<^verbatim>\<open>std::to_string\<close> on \<^verbatim>\<open>int\<close>\<close>

fun digits :: "nat \<Rightarrow> string" where
  "digits n =
     (if n < 10 then [''0123456789'' ! n]
      else digits (n div 10) @ [''0123456789'' ! (n mod 10)])"

declare digits.simps [simp del]

definition to_string :: "int \<Rightarrow> string" where
  "to_string n = (if n < 0 then CHR ''-'' # digits (nat (- n)) else digits (nat n))"

subsection \<open>Environment, events and state\<close>

text \<open>
  \<open>settings_json\<close> is what \<^verbatim>\<open>std::ifstream\<close> and \<^verbatim>\<open>configFile >> configJson\<close> give:
  the file cannot be opened, the parser throws (with the text of \<^verbatim>\<open>e.what()\<close>), or the
  document parses to a value.
\<close>

datatype config_file = CannotOpen | ParseError string | Parsed json

text \<open>
  \<open>random_device e k\<close> is the value the \<open>k\<close>-th \<^verbatim>\<open>std::random_device\<close> of the run
  delivers; \<open>uniform_int_distribution e a b seed\<close> is what
  \<^verbatim>\<open>std::uniform_int_distribution<>(a, b)\<close> returns on a \<^verbatim>\<open>std::mt19937\<close> seeded with
  \<open>seed\<close>. The library is a parameter; its contract is \<open>distribution_contract\<close> below.
\<close>

record env =
  readme_opens :: bool
  settings_json :: config_file
  random_device :: "nat \<Rightarrow> nat"
  uniform_int_distribution :: "int \<Rightarrow> int \<Rightarrow> nat \<Rightarrow> int"


text \<open>An argument of a log call, kept beside the format string.\<close>

datatype arg = I int | S string

text \<open>\<^verbatim>\<open>web::WebRequest\<close>: the body set by \<^verbatim>\<open>bodyString\<close>, the headers in call order.\<close>

record WebRequest =
  body :: "json option"
  headers :: "(string \<times> string) list"

datatype event =
    WriteReadme
  | OpenSettings
  | LogError string "arg list"
  | Popup string
  | Send string string WebRequest

text \<open>\<open>rd_reads\<close> counts the random devices read so far.\<close>

record state =
  trace :: "event list"
  rd_reads :: nat

subsection \<open>The functions of \<^verbatim>\<open>main.cpp\<close>\<close>

definition log_error :: "string \<Rightarrow> arg list \<Rightarrow> state \<Rightarrow> state" where
  "log_error fmt args s = s\<lparr>trace := trace s @ [LogError fmt args]\<rparr>"

definition showPopupMessage :: "string \<Rightarrow> state \<Rightarrow> state" where
  "showPopupMessage message s = s\<lparr>trace := trace s @ [Popup message]\<rparr>"

definition writeReadme :: "env \<Rightarrow> state \<Rightarrow> state" where
  "writeReadme e s =
     (if \<not> readme_opens e then
        log_error ''Failed to create readme.txt in the config directory.'' [] s
      else s\<lparr>trace := trace s @ [WriteReadme]\<rparr>)"

abbreviation missing_config_message :: string where
  "missing_config_message \<equiv>
     ''Error: Missing config file! Read readme.txt in the mod's config folder.''"

abbreviation invalid_config_message :: string where
  "invalid_config_message \<equiv>
     ''Error: Invalid config file! Read readme.txt in the mod's config folder.''"

abbreviation missing_fields_message :: string where
  "missing_fields_message \<equiv>
     ''Error: Missing required fields in config file! Read readme.txt in the mod's config folder.''"

text \<open>
  \<^verbatim>\<open>return {};\<close> in a function returning \<^verbatim>\<open>json\<close> value-initialises the result: the
  null value. An exception of a range read leaves the function where it is thrown.
\<close>

definition readConfig :: "env \<Rightarrow> state \<Rightarrow> (failure + json) \<times> state" where
  "readConfig e s0 =
     (let s1 = writeReadme e s0;
          s2 = s1\<lparr>trace := trace s1 @ [OpenSettings]\<rparr>
      in case settings_json e of
           CannotOpen \<Rightarrow>
             (Inr JNull,
              showPopupMessage missing_config_message
                (log_error ''Failed to open settings.json file in config directory'' [] s2))
         | ParseError what \<Rightarrow>
             (Inr JNull,
              showPopupMessage invalid_config_message
                (log_error ''Error parsing JSON file: {}'' [S what] s2))
         | Parsed configJson \<Rightarrow>
            (case value_int configJson ''minDuration'' 300 of
               Inl x \<Rightarrow> (Inl x, s2)
             | Inr minDuration \<Rightarrow>
            (case value_int configJson ''maxDuration'' 30000 of
               Inl x \<Rightarrow> (Inl x, s2)
             | Inr maxDuration \<Rightarrow>
            (case value_int configJson ''minIntensity'' 1 of
               Inl x \<Rightarrow> (Inl x, s2)
             | Inr minIntensity \<Rightarrow>
            (case value_int configJson ''maxIntensity'' 100 of
               Inl x \<Rightarrow> (Inl x, s2)
             | Inr maxIntensity \<Rightarrow>
               if minDuration < 300 \<or> maxDuration > 30000 \<or> minDuration > maxDuration then
                 (Inr JNull,
                  showPopupMessage invalid_config_message
                    (log_error
                       ''Invalid duration range in config: minDuration={}, maxDuration={}''
                       [I minDuration, I maxDuration] s2))
               else if minIntensity < 1 \<or> maxIntensity > 100 \<or> minIntensity > maxIntensity then
                 (Inr JNull,
                  showPopupMessage invalid_config_message
                    (log_error
                       ''Invalid intensity range in config: minIntensity={}, maxIntensity={}''
                       [I minIntensity, I maxIntensity] s2))
               else (Inr configJson, s2))))))"

text \<open>
  Each call makes its own random device, seeds a generator from it and draws once from
  the distribution on \<open>[min, max]\<close>.
\<close>

definition generateRandomValue ::
  "env \<Rightarrow> int \<Rightarrow> int \<Rightarrow> state \<Rightarrow> (failure + int) \<times> state" where
  "generateRandomValue e min_v max_v s =
     (let rd = random_device e (rd_reads s);
          s' = s\<lparr>rd_reads := rd_reads s + 1\<rparr>
      in if max_v < min_v then (Inl undefined_behaviour, s')
         else (Inr (uniform_int_distribution e min_v max_v rd), s'))"

text \<open>
  The calls on the \<^verbatim>\<open>web::WebRequest\<close>; \<^verbatim>\<open>post\<close> hands the request over, which the
  trace records with its method and URL.
\<close>

definition bodyString :: "json \<Rightarrow> WebRequest \<Rightarrow> WebRequest" where
  "bodyString b req = req\<lparr>body := Some b\<rparr>"

definition header :: "string \<Rightarrow> string \<Rightarrow> WebRequest \<Rightarrow> WebRequest" where
  "header name v req = req\<lparr>headers := headers req @ [(name, v)]\<rparr>"

definition post :: "string \<Rightarrow> WebRequest \<Rightarrow> state \<Rightarrow> state" where
  "post url req s = s\<lparr>trace := trace s @ [Send ''POST'' url req]\<rparr>"

definition sendPostRequest :: "env \<Rightarrow> state \<Rightarrow> failure option \<times> state" where
  "sendPostRequest e s0 =
     (case readConfig e s0 of
        (Inl x, s1) \<Rightarrow> (Some x, s1)
      | (Inr config, s1) \<Rightarrow>
          if empty_json config then (None, s1)
          else
           (case value_int config ''minDuration'' 300 of
              Inl x \<Rightarrow> (Some x, s1)
            | Inr minDuration \<Rightarrow>
           (case value_int config ''maxDuration'' 30000 of
              Inl x \<Rightarrow> (Some x, s1)
            | Inr maxDuration \<Rightarrow>
           (case value_int config ''minIntensity'' 1 of
              Inl x \<Rightarrow> (Some x, s1)
            | Inr minIntensity \<Rightarrow>
           (case value_int config ''maxIntensity'' 100 of
              Inl x \<Rightarrow> (Some x, s1)
            | Inr maxIntensity \<Rightarrow>
           (case value_string config ''shockerID'' '''' of
              Inl x \<Rightarrow> (Some x, s1)
            | Inr shockerID \<Rightarrow>
           (case value_string config ''OpenShockToken'' '''' of
              Inl x \<Rightarrow> (Some x, s1)
            | Inr openShockToken \<Rightarrow>
           (case value_string config ''customName'' '''' of
              Inl x \<Rightarrow> (Some x, s1)
            | Inr customName \<Rightarrow>
           (case value_string config ''endpointDomain'' ''api.openshock.app'' of
              Inl x \<Rightarrow> (Some x, s1)
            | Inr domain \<Rightarrow>
               let endpointDomain = (if domain = [] then ''api.openshock.app'' else domain)
               in
               if shockerID = [] \<or> openShockToken = [] \<or> customName = [] then
                 (None,
                  showPopupMessage missing_fields_message
                    (log_error ''Missing required fields in JSON configuration'' [] s1))
               else
                (case generateRandomValue e minIntensity maxIntensity s1 of
                   (Inl x, s2) \<Rightarrow> (Some x, s2)
                 | (Inr randomIntensity, s2) \<Rightarrow>
                (case generateRandomValue e minDuration maxDuration s2 of
                   (Inl x, s3) \<Rightarrow> (Some x, s3)
                 | (Inr randomDurationMs, s3) \<Rightarrow>
                    let requestBody =
                          JObject
                            [(''shocks'',
                              JArray
                                [JObject
                                   [(''id'', JString shockerID),
                                    (''type'', JString ''Shock''),
                                    (''intensity'', JInt randomIntensity),
                                    (''duration'', JInt randomDurationMs),
                                    (''exclusive'', JBool True)]]),
                             (''customName'', JString customName)];
                        req =
                          header ''OpenShockToken'' openShockToken
                            (header ''accept'' ''application/json''
                               (header ''Content-Type'' ''application/json''
                                  (bodyString requestBody \<lparr>body = None, headers = []\<rparr>)));
                        url = ''https://'' @ endpointDomain @ ''/2/shockers/control'';
                        s4 = post url req s3
                    in (None,
                        showPopupMessage
                          (''Duration: '' @ to_string (randomDurationMs sdiv 1000) @ ''s''
                             @ ''     '' @ ''Intensity: '' @ to_string randomIntensity)
                          s4))))))))))))"

subsection \<open>Observations on a trace\<close>

text \<open>
  What \<^verbatim>\<open>writeReadme\<close> leaves in the trace: the write, or the logged error when the
  file cannot be opened.
\<close>

definition readme_event :: "env \<Rightarrow> event" where
  "readme_event e =
     (if readme_opens e then WriteReadme
      else LogError ''Failed to create readme.txt in the config directory.'' [])"

fun is_Send :: "event \<Rightarrow> bool" where
  "is_Send (Send m url req) = True"
| "is_Send _ = False"

fun is_Popup :: "event \<Rightarrow> bool" where
  "is_Popup (Popup message) = True"
| "is_Popup _ = False"

subsection \<open>Sample environments and documents\<close>

text \<open>
  A distribution that meets the contract, a random device, and a state with nothing done
  yet.
\<close>

definition sample_env :: "config_file \<Rightarrow> env" where
  "sample_env f =
     \<lparr>readme_opens = True, settings_json = f, random_device = (\<lambda>k. 7 * k + 3),
      uniform_int_distribution = (\<lambda>a b seed. a + int seed mod (b - a + 1))\<rparr>"

definition start :: state where
  "start = \<lparr>trace = [], rd_reads = 0\<rparr>"


text \<open>Only the three required strings.\<close>

definition minimal_document :: json where
  "minimal_document =
     JObject
       [(''shockerID'', JString ''abc''),
        (''OpenShockToken'', JString ''tok''),
        (''customName'', JString ''X'')]"


text \<open>No \<open>shockerID\<close>, and a duration range that starts below 300.\<close>

definition short_duration_document :: json where
  "short_duration_document =
     JObject
       [(''OpenShockToken'', JString ''tok''),
        (''customName'', JString ''X''),
        (''minDuration'', JInt 100)]"

text \<open>An intensity range that ends above 100, with the duration range in order.\<close>

definition strong_intensity_document :: json where
  "strong_intensity_document =
     JObject
       [(''shockerID'', JString ''abc''),
        (''OpenShockToken'', JString ''tok''),
        (''customName'', JString ''X''),
        (''maxIntensity'', JInt 150)]"


text \<open>Valid ranges, an empty \<open>customName\<close>.\<close>

definition unnamed_document :: json where
  "unnamed_document =
     JObject
       [(''shockerID'', JString ''abc''),
        (''OpenShockToken'', JString ''tok''),
        (''customName'', JString []),
        (''minDuration'', JInt 500),
        (''maxDuration'', JInt 10000),
        (''minIntensity'', JInt 10),
        (''maxIntensity'', JInt 90)]"





text \<open>The sample environment with a \<^verbatim>\<open>readme.txt\<close> that cannot be opened for writing.\<close>

definition locked_env :: "config_file \<Rightarrow> env" where
  "locked_env f = (sample_env f)\<lparr>readme_opens := False\<rparr>"

subsection \<open>The request of the OpenShock control endpoint\<close>

text \<open>
  Body and headers of the request as the specification gives them (data model, Request),
  to be compared with what \<^verbatim>\<open>sendPostRequest\<close> builds.
\<close>

abbreviation shock_body :: "string \<Rightarrow> string \<Rightarrow> int \<Rightarrow> int \<Rightarrow> json" where
  "shock_body shockerId customName intensity duration \<equiv>
     JObject
       [(''shocks'',
         JArray
           [JObject
              [(''id'', JString shockerId),
               (''type'', JString ''Shock''),
               (''intensity'', JInt intensity),
               (''duration'', JInt duration),
               (''exclusive'', JBool True)]]),
        (''customName'', JString customName)]"

abbreviation shock_headers :: "string \<Rightarrow> (string \<times> string) list" where
  "shock_headers apiToken \<equiv>
     [(''Content-Type'', ''application/json''),
      (''accept'', ''application/json''),
      (''OpenShockToken'', apiToken)]"

text \<open>The text of the pop-up that follows the request.\<close>

abbreviation progress_message :: "int \<Rightarrow> int \<Rightarrow> string" where
  "progress_message duration intensity \<equiv>
     ''Duration: '' @ to_string (duration sdiv 1000) @ ''s'' @ ''     '' @ ''Intensity: ''
       @ to_string intensity"

section \<open>Lemmas on the model\<close>

lemma writeReadme_event: "writeReadme e s = s\<lparr>trace := trace s @ [readme_event e]\<rparr>"
  by (simp add: writeReadme_def readme_event_def log_error_def)

lemma readme_event_not_Send [simp]: "Send m url req \<noteq> readme_event e"
  by (simp add: readme_event_def)

lemma readme_event_not_Popup [simp]: "\<not> is_Popup (readme_event e)"
  by (simp add: readme_event_def)

lemma readme_event_not_is_Send [simp]: "\<not> is_Send (readme_event e)"
  by (simp add: readme_event_def)

lemma readme_event_sample [simp]: "readme_event (sample_env f) = WriteReadme"
  by (simp add: readme_event_def sample_env_def)

lemma settings_sample [simp]: "settings_json (sample_env f) = f"
  by (simp add: sample_env_def)


subsection \<open>\<^verbatim>\<open>readConfig\<close>, path by path\<close>

lemma readConfig_CannotOpen:
  assumes "settings_json e = CannotOpen"
  shows "readConfig e s =
    (Inr JNull,
     s\<lparr>trace := trace s @
        [readme_event e, OpenSettings,
         LogError ''Failed to open settings.json file in config directory'' [],
         Popup missing_config_message]\<rparr>)"
  using assms
  by (simp add: readConfig_def writeReadme_event log_error_def showPopupMessage_def)

lemma readConfig_ParseError:
  assumes "settings_json e = ParseError what"
  shows "readConfig e s =
    (Inr JNull,
     s\<lparr>trace := trace s @
        [readme_event e, OpenSettings,
         LogError ''Error parsing JSON file: {}'' [S what],
         Popup invalid_config_message]\<rparr>)"
  using assms
  by (simp add: readConfig_def writeReadme_event log_error_def showPopupMessage_def)

text \<open>
  When the document parses and the four range reads return, \<^verbatim>\<open>readConfig\<close> is decided
  by the two range checks, the duration check first.
\<close>

lemma readConfig_Parsed:
  assumes "settings_json e = Parsed cfg"
    and "value_int cfg ''minDuration'' 300 = Inr minD"
    and "value_int cfg ''maxDuration'' 30000 = Inr maxD"
    and "value_int cfg ''minIntensity'' 1 = Inr minI"
    and "value_int cfg ''maxIntensity'' 100 = Inr maxI"
  shows "readConfig e s =
    (if minD < 300 \<or> maxD > 30000 \<or> minD > maxD then
       (Inr JNull,
        s\<lparr>trace := trace s @
           [readme_event e, OpenSettings,
            LogError ''Invalid duration range in config: minDuration={}, maxDuration={}''
              [I minD, I maxD],
            Popup invalid_config_message]\<rparr>)
     else if minI < 1 \<or> maxI > 100 \<or> minI > maxI then
       (Inr JNull,
        s\<lparr>trace := trace s @
           [readme_event e, OpenSettings,
            LogError ''Invalid intensity range in config: minIntensity={}, maxIntensity={}''
              [I minI, I maxI],
            Popup invalid_config_message]\<rparr>)
     else (Inr cfg, s\<lparr>trace := trace s @ [readme_event e, OpenSettings]\<rparr>))"
  using assms
  by (simp add: readConfig_def writeReadme_event log_error_def showPopupMessage_def)

text \<open>Whatever the settings file, the trace of a load starts in the same way.\<close>

lemma readConfig_prefix:
  "\<exists>rest. trace (snd (readConfig e s)) = trace s @ readme_event e # OpenSettings # rest"
  by (cases "settings_json e")
    (auto simp add: readConfig_def writeReadme_event log_error_def showPopupMessage_def
      Let_def split: sum.splits)

subsection \<open>\<^verbatim>\<open>sendPostRequest\<close> after the load\<close>

lemma sendPostRequest_throw:
  assumes "readConfig e s = (Inl x, s')"
  shows "sendPostRequest e s = (Some x, s')"
  using assms by (simp add: sendPostRequest_def)

lemma sendPostRequest_empty:
  assumes "readConfig e s = (Inr cfg, s')" and "empty_json cfg"
  shows "sendPostRequest e s = (None, s')"
  using assms by (simp add: sendPostRequest_def)

lemma value_string_not_empty:
  assumes "value_string cfg key [] = Inr v" and "v \<noteq> []"
  shows "\<not> empty_json cfg"
  using assms by (cases cfg) auto

text \<open>
  A document that is not empty, passes both range checks and whose four strings can be
  read: the required strings decide between the pop-up and the request.
\<close>

lemma sendPostRequest_loaded:
  assumes "settings_json e = Parsed cfg"
    and "\<not> empty_json cfg"
    and "value_int cfg ''minDuration'' 300 = Inr minD"
    and "value_int cfg ''maxDuration'' 30000 = Inr maxD"
    and "value_int cfg ''minIntensity'' 1 = Inr minI"
    and "value_int cfg ''maxIntensity'' 100 = Inr maxI"
    and "300 \<le> minD" "maxD \<le> 30000" "minD \<le> maxD"
    and "1 \<le> minI" "maxI \<le> 100" "minI \<le> maxI"
    and "value_string cfg ''shockerID'' [] = Inr sid"
    and "value_string cfg ''OpenShockToken'' [] = Inr tok"
    and "value_string cfg ''customName'' [] = Inr name"
    and "value_string cfg ''endpointDomain'' ''api.openshock.app'' = Inr host"
  shows "sendPostRequest e s =
    (if sid = [] \<or> tok = [] \<or> name = [] then
       (None,
        s\<lparr>trace := trace s @
           [readme_event e, OpenSettings,
            LogError ''Missing required fields in JSON configuration'' [],
            Popup missing_fields_message]\<rparr>)
     else
       (None,
        s\<lparr>trace := trace s @
           [readme_event e, OpenSettings,
            Send ''POST''
              (''https://'' @ (if host = [] then ''api.openshock.app'' else host)
                 @ ''/2/shockers/control'')
              \<lparr>body =
                 Some (shock_body sid name
                   (uniform_int_distribution e minI maxI (random_device e (rd_reads s)))
                   (uniform_int_distribution e minD maxD (random_device e (rd_reads s + 1)))),
               headers = shock_headers tok\<rparr>,
            Popup (progress_message
              (uniform_int_distribution e minD maxD (random_device e (rd_reads s + 1)))
              (uniform_int_distribution e minI maxI (random_device e (rd_reads s))))],
          rd_reads := rd_reads s + 2\<rparr>))"
proof -
  have load: "readConfig e s = (Inr cfg, s\<lparr>trace := trace s @ [readme_event e, OpenSettings]\<rparr>)"
    using assms by (simp add: readConfig_Parsed)
  show ?thesis
    using assms
    by (simp add: sendPostRequest_def load generateRandomValue_def post_def header_def
        bodyString_def log_error_def showPopupMessage_def Let_def)
qed


text \<open>
  The distribution is never constructed with \<open>max < min\<close>: the checks of
  \<^verbatim>\<open>readConfig\<close> come first.
\<close>

lemma get_int_defined: "get_int v \<noteq> Inl undefined_behaviour"
  by (cases v) simp_all

lemma get_string_defined: "get_string v \<noteq> Inl undefined_behaviour"
  by (cases v) simp_all

lemma value_int_defined [simp]: "value_int cfg key dflt \<noteq> Inl undefined_behaviour"
  by (cases cfg) (simp_all add: get_int_defined split: option.splits)

lemma value_string_defined [simp]: "value_string cfg key dflt \<noteq> Inl undefined_behaviour"
  by (cases cfg) (simp_all add: get_string_defined split: option.splits)

lemma sendPostRequest_defined: "fst (sendPostRequest e s) \<noteq> Some undefined_behaviour"
proof (cases "settings_json e")
  case CannotOpen
  then show ?thesis
    by (simp add: sendPostRequest_def readConfig_CannotOpen)
next
  case (ParseError w)
  then show ?thesis
    by (simp add: sendPostRequest_def readConfig_ParseError)
next
  case (Parsed cfg)
  then show ?thesis
    by (auto simp add: sendPostRequest_def readConfig_def writeReadme_event log_error_def
        showPopupMessage_def generateRandomValue_def post_def header_def bodyString_def
        Let_def
        split: sum.splits if_splits)
qed

subsection \<open>The sample documents, read and run\<close>

lemma int32_small [simp]: "- (2 ^ 31) \<le> x \<Longrightarrow> x < 2 ^ 31 \<Longrightarrow> int32 x = x"
  by (simp add: int32_def)

lemma short_duration_reads:
  "value_int short_duration_document ''minDuration'' 300 = Inr 100"
  "value_int short_duration_document ''maxDuration'' 30000 = Inr 30000"
  "value_int short_duration_document ''minIntensity'' 1 = Inr 1"
  "value_int short_duration_document ''maxIntensity'' 100 = Inr 100"
  by (simp_all add: short_duration_document_def)

lemma strong_intensity_reads:
  "value_int strong_intensity_document ''minDuration'' 300 = Inr 300"
  "value_int strong_intensity_document ''maxDuration'' 30000 = Inr 30000"
  "value_int strong_intensity_document ''minIntensity'' 1 = Inr 1"
  "value_int strong_intensity_document ''maxIntensity'' 100 = Inr 150"
  by (simp_all add: strong_intensity_document_def)




lemma unnamed_reads:
  "value_int unnamed_document ''minDuration'' 300 = Inr 500"
  "value_int unnamed_document ''maxDuration'' 30000 = Inr 10000"
  "value_int unnamed_document ''minIntensity'' 1 = Inr 10"
  "value_int unnamed_document ''maxIntensity'' 100 = Inr 90"
  "value_string unnamed_document ''shockerID'' [] = Inr ''abc''"
  "value_string unnamed_document ''OpenShockToken'' [] = Inr ''tok''"
  "value_string unnamed_document ''customName'' [] = Inr []"
  "value_string unnamed_document ''endpointDomain'' ''api.openshock.app'' = Inr ''api.openshock.app''"
  by (simp_all add: unnamed_document_def)

lemmas run_defs =
  sendPostRequest_def readConfig_def writeReadme_def log_error_def showPopupMessage_def
  generateRandomValue_def post_def header_def bodyString_def sample_env_def start_def
  to_string_def digits.simps Let_def


lemma minimal_run:
  "sendPostRequest (sample_env (Parsed minimal_document)) start =
     (None,
      \<lparr>trace =
         [WriteReadme, OpenSettings,
          Send ''POST'' ''https://api.openshock.app/2/shockers/control''
            \<lparr>body = Some (shock_body ''abc'' ''X'' 4 310), headers = shock_headers ''tok''\<rparr>,
          Popup ''Duration: 0s     Intensity: 4''],
       rd_reads = 2\<rparr>)"
  by (simp add: run_defs minimal_document_def)


text \<open>
  The range values are the \<^verbatim>\<open>int\<close> variables of the code: a JSON integer beyond 32
  bits is read modulo \<open>2^32\<close>, and a boolean as 0 or 1.
\<close>

lemma value_int_wraps:
  "value_int (JObject [(''minDuration'', JInt (2 ^ 32 + 300))]) ''minDuration'' 300 = Inr 300"
  by (simp add: int32_def)

lemma value_int_wrong_type:
  "value_int (JObject [(''minDuration'', JString ''300'')]) ''minDuration'' 300 =
     Inl (type_error 302)"
  "value_int (JArray []) ''minDuration'' 300 = Inl (type_error 306)"
  by simp_all

text \<open>When \<^verbatim>\<open>readme.txt\<close> cannot be opened the load goes on without it.\<close>

lemma readme_not_written:
  assumes "\<not> readme_opens e"
  shows "writeReadme e s =
    s\<lparr>trace := trace s @
       [LogError ''Failed to create readme.txt in the config directory.'' []]\<rparr>"
  using assms by (simp add: writeReadme_def log_error_def)

section \<open>The claims\<close>

subsection \<open>Range validation\<close>







subsection \<open>The request\<close>






text \<open>
  C10. A configuration object that holds the three required strings, none of them
  empty, and neither a range field nor \<open>endpointDomain\<close>: the four range reads give
  the defaults 300, 30000, 1 and 100, the load returns the document, and the request is
  posted to \<^verbatim>\<open>https://api.openshock.app/2/shockers/control\<close> with an intensity drawn from
  1 to 100 and a duration drawn from 300 to 30000.
\<close>

theorem required_strings_only_uses_defaults:
  assumes "settings_json e = Parsed (JObject kvs)"
    and "map_of kvs ''shockerID'' = Some (JString sid)" and "sid \<noteq> []"
    and "map_of kvs ''OpenShockToken'' = Some (JString tok)" and "tok \<noteq> []"
    and "map_of kvs ''customName'' = Some (JString name)" and "name \<noteq> []"
    and "map_of kvs ''minDuration'' = None"
    and "map_of kvs ''maxDuration'' = None"
    and "map_of kvs ''minIntensity'' = None"
    and "map_of kvs ''maxIntensity'' = None"
    and "map_of kvs ''endpointDomain'' = None"
  shows "value_int (JObject kvs) ''minDuration'' 300 = Inr 300 \<and>
    value_int (JObject kvs) ''maxDuration'' 30000 = Inr 30000 \<and>
    value_int (JObject kvs) ''minIntensity'' 1 = Inr 1 \<and>
    value_int (JObject kvs) ''maxIntensity'' 100 = Inr 100 \<and>
    readConfig e s =
      (Inr (JObject kvs), s\<lparr>trace := trace s @ [readme_event e, OpenSettings]\<rparr>) \<and>
    sendPostRequest e s =
      (None,
       s\<lparr>trace := trace s @
          [readme_event e, OpenSettings,
           Send ''POST'' ''https://api.openshock.app/2/shockers/control''
             \<lparr>body =
                Some (shock_body sid name
                  (uniform_int_distribution e 1 100 (random_device e (rd_reads s)))
                  (uniform_int_distribution e 300 30000 (random_device e (rd_reads s + 1)))),
              headers = shock_headers tok\<rparr>,
           Popup (progress_message
             (uniform_int_distribution e 300 30000 (random_device e (rd_reads s + 1)))
             (uniform_int_distribution e 1 100 (random_device e (rd_reads s))))],
         rd_reads := rd_reads s + 2\<rparr>)"
proof -
  have ints:
    "value_int (JObject kvs) ''minDuration'' 300 = Inr 300"
    "value_int (JObject kvs) ''maxDuration'' 30000 = Inr 30000"
    "value_int (JObject kvs) ''minIntensity'' 1 = Inr 1"
    "value_int (JObject kvs) ''maxIntensity'' 100 = Inr 100"
    using assms by simp_all
  have strings:
    "value_string (JObject kvs) ''shockerID'' [] = Inr sid"
    "value_string (JObject kvs) ''OpenShockToken'' [] = Inr tok"
    "value_string (JObject kvs) ''customName'' [] = Inr name"
    "value_string (JObject kvs) ''endpointDomain'' ''api.openshock.app'' = Inr ''api.openshock.app''"
    using assms by simp_all
  have filled: "\<not> empty_json (JObject kvs)"
    using strings(1) assms(3) by (rule value_string_not_empty)
  have load: "readConfig e s =
      (Inr (JObject kvs), s\<lparr>trace := trace s @ [readme_event e, OpenSettings]\<rparr>)"
    using assms(1) ints by (simp add: readConfig_Parsed)
  have trigger: "sendPostRequest e s =
      (None,
       s\<lparr>trace := trace s @
          [readme_event e, OpenSettings,
           Send ''POST'' ''https://api.openshock.app/2/shockers/control''
             \<lparr>body =
                Some (shock_body sid name
                  (uniform_int_distribution e 1 100 (random_device e (rd_reads s)))
                  (uniform_int_distribution e 300 30000 (random_device e (rd_reads s + 1)))),
              headers = shock_headers tok\<rparr>,
           Popup (progress_message
             (uniform_int_distribution e 300 30000 (random_device e (rd_reads s + 1)))
             (uniform_int_distribution e 1 100 (random_device e (rd_reads s))))],
         rd_reads := rd_reads s + 2\<rparr>)"
    using sendPostRequest_loaded [OF assms(1) filled ints _ _ _ _ _ _ strings, of s]
      assms(3,5,7)
    by simp
  from ints load trigger show ?thesis
    by simp
qed

theorem required_strings_only_uses_defaults_witness:
  "settings_json (sample_env (Parsed minimal_document)) = Parsed minimal_document \<and>
   value_int minimal_document ''minDuration'' 300 = Inr 300 \<and>
   value_int minimal_document ''maxDuration'' 30000 = Inr 30000 \<and>
   value_int minimal_document ''minIntensity'' 1 = Inr 1 \<and>
   value_int minimal_document ''maxIntensity'' 100 = Inr 100 \<and>
   readConfig (sample_env (Parsed minimal_document)) start =
     (Inr minimal_document, \<lparr>trace = [WriteReadme, OpenSettings], rd_reads = 0\<rparr>) \<and>
   sendPostRequest (sample_env (Parsed minimal_document)) start =
     (None,
      \<lparr>trace =
         [WriteReadme, OpenSettings,
          Send ''POST'' ''https://api.openshock.app/2/shockers/control''
            \<lparr>body = Some (shock_body ''abc'' ''X'' 4 310), headers = shock_headers ''tok''\<rparr>,
          Popup ''Duration: 0s     Intensity: 4''],
       rd_reads = 2\<rparr>)"
proof -
  let ?kvs = "[(''shockerID'', JString ''abc''), (''OpenShockToken'', JString ''tok''),
         (''customName'', JString ''X'')]"
  have doc: "settings_json (sample_env (Parsed minimal_document)) = Parsed (JObject ?kvs)"
    by (simp add: minimal_document_def)
  have present:
    "map_of ?kvs ''shockerID'' = Some (JString ''abc'')" "''abc'' \<noteq> []"
    "map_of ?kvs ''OpenShockToken'' = Some (JString ''tok'')" "''tok'' \<noteq> []"
    "map_of ?kvs ''customName'' = Some (JString ''X'')" "''X'' \<noteq> []"
    by simp_all
  have absent:
    "map_of ?kvs ''minDuration'' = None"
    "map_of ?kvs ''maxDuration'' = None"
    "map_of ?kvs ''minIntensity'' = None"
    "map_of ?kvs ''maxIntensity'' = None"
    "map_of ?kvs ''endpointDomain'' = None"
    by simp_all
  have run: "sendPostRequest (sample_env (Parsed minimal_document)) start =
     (None,
      \<lparr>trace =
         [WriteReadme, OpenSettings,
          Send ''POST'' ''https://api.openshock.app/2/shockers/control''
            \<lparr>body = Some (shock_body ''abc'' ''X'' 4 310), headers = shock_headers ''tok''\<rparr>,
          Popup ''Duration: 0s     Intensity: 4''],
       rd_reads = 2\<rparr>)"
    by (rule minimal_run)
  from required_strings_only_uses_defaults [OF doc present absent, of start]
  have "value_int (JObject ?kvs) ''minDuration'' 300 = Inr 300 \<and>
    value_int (JObject ?kvs) ''maxDuration'' 30000 = Inr 30000 \<and>
    value_int (JObject ?kvs) ''minIntensity'' 1 = Inr 1 \<and>
    value_int (JObject ?kvs) ''maxIntensity'' 100 = Inr 100 \<and>
    readConfig (sample_env (Parsed minimal_document)) start =
      (Inr (JObject ?kvs), \<lparr>trace = [WriteReadme, OpenSettings], rd_reads = 0\<rparr>)"
    by (simp add: start_def)
  with run show ?thesis
    by (simp add: minimal_document_def)
qed

subsection \<open>Required fields and the empty document\<close>

text \<open>
  C4, as claimed, does not hold. The required strings are looked at only after the load
  has succeeded and the loaded document has passed the emptiness test of the caller.
  A document without \<open>shockerID\<close> whose duration range starts at 100 is rejected for
  its range: the trace ends with the duration diagnostic and the invalid-configuration
  pop-up, and the missing-fields message is neither logged nor shown. The empty
  object, in which all three strings are missing, gets no message at all.
\<close>

theorem missing_fields_not_reported:
  "value_string short_duration_document ''shockerID'' [] = Inr [] \<and>
   sendPostRequest (sample_env (Parsed short_duration_document)) start =
     (None,
      \<lparr>trace =
         [WriteReadme, OpenSettings,
          LogError ''Invalid duration range in config: minDuration={}, maxDuration={}''
            [I 100, I 30000],
          Popup invalid_config_message],
       rd_reads = 0\<rparr>) \<and>
   Popup missing_fields_message
     \<notin> set (trace (snd (sendPostRequest (sample_env (Parsed short_duration_document)) start))) \<and>
   value_string (JObject []) ''shockerID'' [] = Inr [] \<and>
   sendPostRequest (sample_env (Parsed (JObject []))) start =
     (None, \<lparr>trace = [WriteReadme, OpenSettings], rd_reads = 0\<rparr>) \<and>
   Popup missing_fields_message
     \<notin> set (trace (snd (sendPostRequest (sample_env (Parsed (JObject []))) start)))"
  by (simp add: run_defs short_duration_document_def)

text \<open>
  C4, amended. For a configuration document that is not empty, whose four range values
  pass both range checks and whose \<open>shockerID\<close>, \<open>OpenShockToken\<close>, \<open>customName\<close>
  and \<open>endpointDomain\<close> are strings where they are present: if \<open>shockerID\<close>,
  \<open>OpenShockToken\<close> or \<open>customName\<close> is missing or the empty string (the read with
  the empty default gives the empty string in both cases), the trigger logs the
  missing-fields message, shows the missing-fields pop-up and stops; it draws nothing
  and sends nothing.
\<close>

theorem missing_required_field_reported:
  assumes "settings_json e = Parsed cfg"
    and "\<not> empty_json cfg"
    and "value_int cfg ''minDuration'' 300 = Inr minD"
    and "value_int cfg ''maxDuration'' 30000 = Inr maxD"
    and "value_int cfg ''minIntensity'' 1 = Inr minI"
    and "value_int cfg ''maxIntensity'' 100 = Inr maxI"
    and "300 \<le> minD" and "maxD \<le> 30000" and "minD \<le> maxD"
    and "1 \<le> minI" and "maxI \<le> 100" and "minI \<le> maxI"
    and "value_string cfg ''shockerID'' [] = Inr sid"
    and "value_string cfg ''OpenShockToken'' [] = Inr tok"
    and "value_string cfg ''customName'' [] = Inr name"
    and "value_string cfg ''endpointDomain'' ''api.openshock.app'' = Inr host"
    and "sid = [] \<or> tok = [] \<or> name = []"
  shows "sendPostRequest e s =
      (None,
       s\<lparr>trace := trace s @
          [readme_event e, OpenSettings,
           LogError ''Missing required fields in JSON configuration'' [],
           Popup missing_fields_message]\<rparr>) \<and>
    rd_reads (snd (sendPostRequest e s)) = rd_reads s \<and>
    filter is_Send (trace (snd (sendPostRequest e s))) = filter is_Send (trace s)"
proof -
  have "sendPostRequest e s =
      (None,
       s\<lparr>trace := trace s @
          [readme_event e, OpenSettings,
           LogError ''Missing required fields in JSON configuration'' [],
           Popup missing_fields_message]\<rparr>)"
    using sendPostRequest_loaded [OF assms(1-16), of s] assms(17)
    by simp
  then show ?thesis
    by simp
qed

theorem missing_required_field_reported_witness:
  "settings_json (sample_env (Parsed unnamed_document)) = Parsed unnamed_document \<and>
   \<not> empty_json unnamed_document \<and>
   value_string unnamed_document ''customName'' [] = Inr [] \<and>
   sendPostRequest (sample_env (Parsed unnamed_document)) start =
     (None,
      \<lparr>trace =
         [WriteReadme, OpenSettings,
          LogError ''Missing required fields in JSON configuration'' [],
          Popup missing_fields_message],
       rd_reads = 0\<rparr>)"
proof -
  have filled: "\<not> empty_json unnamed_document"
    by (simp add: unnamed_document_def)
  have ranges: "(300::int) \<le> 500" "(10000::int) \<le> 30000" "(500::int) \<le> 10000"
    "(1::int) \<le> 10" "(90::int) \<le> 100" "(10::int) \<le> 90"
    by simp_all
  have missing: "''abc'' = [] \<or> ''tok'' = [] \<or> ([]::string) = []"
    by simp
  from missing_required_field_reported
    [OF settings_sample filled unnamed_reads(1-4) ranges unnamed_reads(5-8) missing, of start]
  show ?thesis
    by (simp add: filled unnamed_reads start_def)
qed

text \<open>
  C6, as claimed, does not hold in one point: the empty object is not the value
  \<^verbatim>\<open>readConfig\<close> uses as its error sentinel. For the empty object the load returns the
  object; on its failure paths (here, the file that cannot be opened) it returns the null
  value; and the two are different JSON values.
\<close>

theorem empty_object_is_not_the_sentinel:
  "readConfig (sample_env (Parsed (JObject []))) start =
     (Inr (JObject []), \<lparr>trace = [WriteReadme, OpenSettings], rd_reads = 0\<rparr>) \<and>
   readConfig (sample_env CannotOpen) start =
     (Inr JNull,
      \<lparr>trace =
         [WriteReadme, OpenSettings,
          LogError ''Failed to open settings.json file in config directory'' [],
          Popup missing_config_message],
       rd_reads = 0\<rparr>) \<and>
   fst (readConfig (sample_env (Parsed (JObject []))) start) \<noteq>
     fst (readConfig (sample_env CannotOpen) start)"
  by (simp add: run_defs)

text \<open>
  C6, amended. When \<^verbatim>\<open>settings.json\<close> parses as the empty object, every range read
  takes its default, both range checks pass and \<^verbatim>\<open>readConfig\<close> returns the object. It
  is not the null value that the failure paths of \<^verbatim>\<open>readConfig\<close> return, but the
  caller's test \<^verbatim>\<open>config.empty()\<close> holds of the empty object as it holds of that null
  value, so \<^verbatim>\<open>sendPostRequest\<close> returns there: after the documentation write and the
  opening of the settings file nothing is logged, no pop-up is shown, nothing is drawn
  and no request is built, although \<open>shockerID\<close>, \<open>OpenShockToken\<close> and
  \<open>customName\<close> are all absent.
\<close>

theorem empty_object_exits_silently:
  assumes "settings_json e = Parsed (JObject [])"
  shows "readConfig e s =
      (Inr (JObject []), s\<lparr>trace := trace s @ [readme_event e, OpenSettings]\<rparr>) \<and>
    JObject [] \<noteq> JNull \<and>
    empty_json (JObject []) \<and> empty_json JNull \<and>
    value_string (JObject []) ''shockerID'' [] = Inr [] \<and>
    value_string (JObject []) ''OpenShockToken'' [] = Inr [] \<and>
    value_string (JObject []) ''customName'' [] = Inr [] \<and>
    sendPostRequest e s = (None, s\<lparr>trace := trace s @ [readme_event e, OpenSettings]\<rparr>) \<and>
    filter is_Popup (trace (snd (sendPostRequest e s))) = filter is_Popup (trace s) \<and>
    filter is_Send (trace (snd (sendPostRequest e s))) = filter is_Send (trace s) \<and>
    rd_reads (snd (sendPostRequest e s)) = rd_reads s"
proof -
  have load: "readConfig e s =
      (Inr (JObject []), s\<lparr>trace := trace s @ [readme_event e, OpenSettings]\<rparr>)"
    using assms by (simp add: readConfig_Parsed [where minD = 300 and maxD = 30000
          and minI = 1 and maxI = 100])
  then have trigger:
    "sendPostRequest e s = (None, s\<lparr>trace := trace s @ [readme_event e, OpenSettings]\<rparr>)"
    by (simp add: sendPostRequest_empty)
  show ?thesis
    by (simp add: load trigger)
qed

theorem empty_object_exits_silently_witness:
  "settings_json (sample_env (Parsed (JObject []))) = Parsed (JObject []) \<and>
   readConfig (sample_env (Parsed (JObject []))) start =
     (Inr (JObject []), \<lparr>trace = [WriteReadme, OpenSettings], rd_reads = 0\<rparr>) \<and>
   sendPostRequest (sample_env (Parsed (JObject []))) start =
     (None, \<lparr>trace = [WriteReadme, OpenSettings], rd_reads = 0\<rparr>)"
  using empty_object_exits_silently [OF settings_sample, of start]
  by (simp add: start_def)

subsection \<open>What a failed load tells its caller\<close>

text \<open>
  C5, as claimed, does not hold: \<^verbatim>\<open>readConfig\<close> returns \<^verbatim>\<open>json\<close>, and on each of its
  four failure paths it returns the same value. A missing file, a document that does not
  parse, a duration range out of order and an intensity range out of order all give the
  caller the null value.
\<close>

theorem load_result_same_for_every_failure:
  "fst (readConfig (sample_env CannotOpen) start) = Inr JNull \<and>
   fst (readConfig (sample_env (ParseError ''unexpected end of input'')) start) = Inr JNull \<and>
   fst (readConfig (sample_env (Parsed short_duration_document)) start) = Inr JNull \<and>
   fst (readConfig (sample_env (Parsed strong_intensity_document)) start) = Inr JNull"
  by (simp add: readConfig_CannotOpen readConfig_ParseError
      readConfig_Parsed [OF settings_sample short_duration_reads]
      readConfig_Parsed [OF settings_sample strong_intensity_reads])

text \<open>
  C5, amended. The result of \<^verbatim>\<open>readConfig\<close> is the same null value for every kind of
  failure, so its caller cannot tell them apart. The kinds are told apart inside
  \<^verbatim>\<open>readConfig\<close>, by the message it logs: one for the file that cannot be opened, one for
  the document that does not parse (with the text of the exception), one for the
  duration range and one for the intensity range (each with its two values). The
  pop-up is the missing-file message in the first case and one and the same
  invalid-configuration message in the other three.
\<close>

theorem load_failures_differ_in_log_only:
  "(settings_json e = CannotOpen \<longrightarrow>
      readConfig e s =
        (Inr JNull,
         s\<lparr>trace := trace s @
            [readme_event e, OpenSettings,
             LogError ''Failed to open settings.json file in config directory'' [],
             Popup missing_config_message]\<rparr>)) \<and>
   (settings_json e = ParseError what \<longrightarrow>
      readConfig e s =
        (Inr JNull,
         s\<lparr>trace := trace s @
            [readme_event e, OpenSettings,
             LogError ''Error parsing JSON file: {}'' [S what],
             Popup invalid_config_message]\<rparr>)) \<and>
   (settings_json e = Parsed cfg \<and>
    value_int cfg ''minDuration'' 300 = Inr minD \<and>
    value_int cfg ''maxDuration'' 30000 = Inr maxD \<and>
    value_int cfg ''minIntensity'' 1 = Inr minI \<and>
    value_int cfg ''maxIntensity'' 100 = Inr maxI \<and>
    (minD < 300 \<or> maxD > 30000 \<or> minD > maxD) \<longrightarrow>
      readConfig e s =
        (Inr JNull,
         s\<lparr>trace := trace s @
            [readme_event e, OpenSettings,
             LogError ''Invalid duration range in config: minDuration={}, maxDuration={}''
               [I minD, I maxD],
             Popup invalid_config_message]\<rparr>)) \<and>
   (settings_json e = Parsed cfg \<and>
    value_int cfg ''minDuration'' 300 = Inr minD \<and>
    value_int cfg ''maxDuration'' 30000 = Inr maxD \<and>
    value_int cfg ''minIntensity'' 1 = Inr minI \<and>
    value_int cfg ''maxIntensity'' 100 = Inr maxI \<and>
    300 \<le> minD \<and> maxD \<le> 30000 \<and> minD \<le> maxD \<and>
    (minI < 1 \<or> maxI > 100 \<or> minI > maxI) \<longrightarrow>
      readConfig e s =
        (Inr JNull,
         s\<lparr>trace := trace s @
            [readme_event e, OpenSettings,
             LogError ''Invalid intensity range in config: minIntensity={}, maxIntensity={}''
               [I minI, I maxI],
             Popup invalid_config_message]\<rparr>))"
proof (intro conjI impI)
  assume "settings_json e = CannotOpen"
  then show "readConfig e s =
        (Inr JNull,
         s\<lparr>trace := trace s @
            [readme_event e, OpenSettings,
             LogError ''Failed to open settings.json file in config directory'' [],
             Popup missing_config_message]\<rparr>)"
    by (rule readConfig_CannotOpen)
next
  assume "settings_json e = ParseError what"
  then show "readConfig e s =
        (Inr JNull,
         s\<lparr>trace := trace s @
            [readme_event e, OpenSettings,
             LogError ''Error parsing JSON file: {}'' [S what],
             Popup invalid_config_message]\<rparr>)"
    by (rule readConfig_ParseError)
next
  assume "settings_json e = Parsed cfg \<and>
    value_int cfg ''minDuration'' 300 = Inr minD \<and>
    value_int cfg ''maxDuration'' 30000 = Inr maxD \<and>
    value_int cfg ''minIntensity'' 1 = Inr minI \<and>
    value_int cfg ''maxIntensity'' 100 = Inr maxI \<and>
    (minD < 300 \<or> maxD > 30000 \<or> minD > maxD)"
  then show "readConfig e s =
        (Inr JNull,
         s\<lparr>trace := trace s @
            [readme_event e, OpenSettings,
             LogError ''Invalid duration range in config: minDuration={}, maxDuration={}''
               [I minD, I maxD],
             Popup invalid_config_message]\<rparr>)"
    by (simp add: readConfig_Parsed)
next
  assume "settings_json e = Parsed cfg \<and>
    value_int cfg ''minDuration'' 300 = Inr minD \<and>
    value_int cfg ''maxDuration'' 30000 = Inr maxD \<and>
    value_int cfg ''minIntensity'' 1 = Inr minI \<and>
    value_int cfg ''maxIntensity'' 100 = Inr maxI \<and>
    300 \<le> minD \<and> maxD \<le> 30000 \<and> minD \<le> maxD \<and>
    (minI < 1 \<or> maxI > 100 \<or> minI > maxI)"
  then show "readConfig e s =
        (Inr JNull,
         s\<lparr>trace := trace s @
            [readme_event e, OpenSettings,
             LogError ''Invalid intensity range in config: minIntensity={}, maxIntensity={}''
               [I minI, I maxI],
             Popup invalid_config_message]\<rparr>)"
    by (simp add: readConfig_Parsed)
qed

theorem load_failures_differ_in_log_only_witness:
  "readConfig (sample_env CannotOpen) start =
     (Inr JNull,
      \<lparr>trace =
         [WriteReadme, OpenSettings,
          LogError ''Failed to open settings.json file in config directory'' [],
          Popup missing_config_message],
       rd_reads = 0\<rparr>) \<and>
   readConfig (sample_env (ParseError ''unexpected end of input'')) start =
     (Inr JNull,
      \<lparr>trace =
         [WriteReadme, OpenSettings,
          LogError ''Error parsing JSON file: {}'' [S ''unexpected end of input''],
          Popup invalid_config_message],
       rd_reads = 0\<rparr>) \<and>
   readConfig (sample_env (Parsed short_duration_document)) start =
     (Inr JNull,
      \<lparr>trace =
         [WriteReadme, OpenSettings,
          LogError ''Invalid duration range in config: minDuration={}, maxDuration={}''
            [I 100, I 30000],
          Popup invalid_config_message],
       rd_reads = 0\<rparr>) \<and>
   readConfig (sample_env (Parsed strong_intensity_document)) start =
     (Inr JNull,
      \<lparr>trace =
         [WriteReadme, OpenSettings,
          LogError ''Invalid intensity range in config: minIntensity={}, maxIntensity={}''
            [I 1, I 150],
          Popup invalid_config_message],
       rd_reads = 0\<rparr>)"
proof -
  have first: "readConfig (sample_env CannotOpen) start =
     (Inr JNull,
      \<lparr>trace =
         [WriteReadme, OpenSettings,
          LogError ''Failed to open settings.json file in config directory'' [],
          Popup missing_config_message],
       rd_reads = 0\<rparr>)"
    using load_failures_differ_in_log_only
      [of "sample_env CannotOpen" start undefined undefined 0 0 0 0]
    by (simp add: start_def)
  have second: "readConfig (sample_env (ParseError ''unexpected end of input'')) start =
     (Inr JNull,
      \<lparr>trace =
         [WriteReadme, OpenSettings,
          LogError ''Error parsing JSON file: {}'' [S ''unexpected end of input''],
          Popup invalid_config_message],
       rd_reads = 0\<rparr>)"
    using load_failures_differ_in_log_only
      [of "sample_env (ParseError ''unexpected end of input'')" start
        "''unexpected end of input''" undefined 0 0 0 0]
    by (simp add: start_def)
  have third: "readConfig (sample_env (Parsed short_duration_document)) start =
     (Inr JNull,
      \<lparr>trace =
         [WriteReadme, OpenSettings,
          LogError ''Invalid duration range in config: minDuration={}, maxDuration={}''
            [I 100, I 30000],
          Popup invalid_config_message],
       rd_reads = 0\<rparr>)"
    using load_failures_differ_in_log_only
      [of "sample_env (Parsed short_duration_document)" start undefined
        short_duration_document 100 30000 1 100]
    by (simp add: short_duration_reads start_def)
  have fourth: "readConfig (sample_env (Parsed strong_intensity_document)) start =
     (Inr JNull,
      \<lparr>trace =
         [WriteReadme, OpenSettings,
          LogError ''Invalid intensity range in config: minIntensity={}, maxIntensity={}''
            [I 1, I 150],
          Popup invalid_config_message],
       rd_reads = 0\<rparr>)"
    using load_failures_differ_in_log_only
      [of "sample_env (Parsed strong_intensity_document)" start undefined
        strong_intensity_document 300 30000 1 150]
    by (simp add: strong_intensity_reads start_def)
  from first second third fourth show ?thesis
    by (intro conjI)
qed

subsection \<open>The documentation file\<close>

text \<open>
  C9, as claimed, does not hold of every load attempt: when \<^verbatim>\<open>readme.txt\<close> cannot be
  opened for writing, \<^verbatim>\<open>writeReadme\<close> logs the failure and returns, and the load goes
  on without the file having been written. With a settings file that does not parse the
  trace holds the two logged errors and the pop-up and no write; with the minimal
  document the request is sent all the same.
\<close>

theorem readme_not_written_when_locked:
  "\<not> readme_opens (locked_env (ParseError ''unexpected end of input'')) \<and>
   readConfig (locked_env (ParseError ''unexpected end of input'')) start =
     (Inr JNull,
      \<lparr>trace =
         [LogError ''Failed to create readme.txt in the config directory.'' [],
          OpenSettings,
          LogError ''Error parsing JSON file: {}'' [S ''unexpected end of input''],
          Popup invalid_config_message],
       rd_reads = 0\<rparr>) \<and>
   WriteReadme
     \<notin> set (trace (snd (readConfig (locked_env (ParseError ''unexpected end of input''))
                      start))) \<and>
   sendPostRequest (locked_env (Parsed minimal_document)) start =
     (None,
      \<lparr>trace =
         [LogError ''Failed to create readme.txt in the config directory.'' [],
          OpenSettings,
          Send ''POST'' ''https://api.openshock.app/2/shockers/control''
            \<lparr>body = Some (shock_body ''abc'' ''X'' 4 310), headers = shock_headers ''tok''\<rparr>,
          Popup ''Duration: 0s     Intensity: 4''],
       rd_reads = 2\<rparr>)"
  by (simp add: run_defs locked_env_def minimal_document_def)

text \<open>
  C9, amended. Provided \<^verbatim>\<open>readme.txt\<close> can be opened for writing, every call of
  \<^verbatim>\<open>readConfig\<close> writes it first and opens \<^verbatim>\<open>settings.json\<close> next, whatever that file
  holds; so it is written when the settings file is missing and when its JSON does not
  parse. In the second case the load logs the parse error, shows the
  invalid-configuration pop-up and returns the empty value, and \<^verbatim>\<open>sendPostRequest\<close>
  returns without a draw and without a request.
\<close>

theorem readme_written_before_settings_opened:
  assumes "readme_opens e"
  shows "(\<exists>rest. trace (snd (readConfig e s)) = trace s @ WriteReadme # OpenSettings # rest) \<and>
    (settings_json e = CannotOpen \<longrightarrow>
       readConfig e s =
         (Inr JNull,
          s\<lparr>trace := trace s @
             [WriteReadme, OpenSettings,
              LogError ''Failed to open settings.json file in config directory'' [],
              Popup missing_config_message]\<rparr>)) \<and>
    (settings_json e = ParseError what \<longrightarrow>
       readConfig e s =
         (Inr JNull,
          s\<lparr>trace := trace s @
             [WriteReadme, OpenSettings,
              LogError ''Error parsing JSON file: {}'' [S what],
              Popup invalid_config_message]\<rparr>) \<and>
       sendPostRequest e s = (None, snd (readConfig e s)) \<and>
       rd_reads (snd (sendPostRequest e s)) = rd_reads s \<and>
       filter is_Send (trace (snd (sendPostRequest e s))) = filter is_Send (trace s))"
proof -
  from assms have written: "readme_event e = WriteReadme"
    by (simp add: readme_event_def)
  have always: "\<exists>rest. trace (snd (readConfig e s)) = trace s @ WriteReadme # OpenSettings # rest"
    using readConfig_prefix [of e s] by (simp add: written)
  have missing: "settings_json e = CannotOpen \<longrightarrow>
       readConfig e s =
         (Inr JNull,
          s\<lparr>trace := trace s @
             [WriteReadme, OpenSettings,
              LogError ''Failed to open settings.json file in config directory'' [],
              Popup missing_config_message]\<rparr>)"
    by (simp add: readConfig_CannotOpen written)
  have malformed: "settings_json e = ParseError what \<longrightarrow>
       readConfig e s =
         (Inr JNull,
          s\<lparr>trace := trace s @
             [WriteReadme, OpenSettings,
              LogError ''Error parsing JSON file: {}'' [S what],
              Popup invalid_config_message]\<rparr>) \<and>
       sendPostRequest e s = (None, snd (readConfig e s)) \<and>
       rd_reads (snd (sendPostRequest e s)) = rd_reads s \<and>
       filter is_Send (trace (snd (sendPostRequest e s))) = filter is_Send (trace s)"
  proof
    assume parse: "settings_json e = ParseError what"
    have load: "readConfig e s =
         (Inr JNull,
          s\<lparr>trace := trace s @
             [WriteReadme, OpenSettings,
              LogError ''Error parsing JSON file: {}'' [S what],
              Popup invalid_config_message]\<rparr>)"
      using readConfig_ParseError [OF parse, of s] by (simp add: written)
    then have trigger: "sendPostRequest e s =
         (None,
          s\<lparr>trace := trace s @
             [WriteReadme, OpenSettings,
              LogError ''Error parsing JSON file: {}'' [S what],
              Popup invalid_config_message]\<rparr>)"
      by (simp add: sendPostRequest_empty)
    show "readConfig e s =
         (Inr JNull,
          s\<lparr>trace := trace s @
             [WriteReadme, OpenSettings,
              LogError ''Error parsing JSON file: {}'' [S what],
              Popup invalid_config_message]\<rparr>) \<and>
       sendPostRequest e s = (None, snd (readConfig e s)) \<and>
       rd_reads (snd (sendPostRequest e s)) = rd_reads s \<and>
       filter is_Send (trace (snd (sendPostRequest e s))) = filter is_Send (trace s)"
      by (simp add: load trigger)
  qed
  from always missing malformed show ?thesis
    by (intro conjI)
qed

theorem readme_written_before_settings_opened_witness:
  "readme_opens (sample_env (ParseError ''unexpected end of input'')) \<and>
   readConfig (sample_env (ParseError ''unexpected end of input'')) start =
     (Inr JNull,
      \<lparr>trace =
         [WriteReadme, OpenSettings,
          LogError ''Error parsing JSON file: {}'' [S ''unexpected end of input''],
          Popup invalid_config_message],
       rd_reads = 0\<rparr>) \<and>
   sendPostRequest (sample_env (ParseError ''unexpected end of input'')) start =
     (None,
      \<lparr>trace =
         [WriteReadme, OpenSettings,
          LogError ''Error parsing JSON file: {}'' [S ''unexpected end of input''],
          Popup invalid_config_message],
       rd_reads = 0\<rparr>) \<and>
   readme_opens (sample_env CannotOpen) \<and>
   readConfig (sample_env CannotOpen) start =
     (Inr JNull,
      \<lparr>trace =
         [WriteReadme, OpenSettings,
          LogError ''Failed to open settings.json file in config directory'' [],
          Popup missing_config_message],
       rd_reads = 0\<rparr>)"
proof -
  have opens: "readme_opens (sample_env f)" for f
    by (simp add: sample_env_def)
  from readme_written_before_settings_opened
    [OF opens, of "ParseError ''unexpected end of input''" start "''unexpected end of input''"]
    readme_written_before_settings_opened [OF opens, of CannotOpen start undefined]
  show ?thesis
    by (simp add: opens start_def)
qed

end
